theory Spec2Isabelle
  imports Main "HOL-Library.Sublist"
begin

section \<open>The terminal package: sessions, their registry set and the commands\<close>

text \<open>
  The development follows \<^verbatim>\<open>src/terminal.js\<close>: the class \<^verbatim>\<open>Terminal\<close> with its
  set of all terminals, the opener, the deserializer, the commands and the service
  function \<^verbatim>\<open>runCommands\<close>. The classes \<^verbatim>\<open>TerminalModel\<close> and
  \<^verbatim>\<open>TerminalElement\<close> live in other files; what the development needs of them is
  either a parameter or a definition marked as modelled from the specification.
\<close>

subsection \<open>JavaScript \<^verbatim>\<open>Set\<close>\<close>

text \<open>
  A \<^verbatim>\<open>Set\<close> keeps its entries in insertion order. Deleting a value leaves an empty
  slot in the list of entries (ECMAScript: the entry is replaced by \<^emph>\<open>empty\<close>), adding a
  value that is absent appends it, and an iterator walks the live list by index, skipping
  empty slots and seeing what was appended meanwhile. \<open>None\<close> is the empty slot.
\<close>

type_synonym 'a jsset = "'a option list"

definition set_values :: "'a jsset \<Rightarrow> 'a list" where
  "set_values es = concat (map (\<lambda>e. case e of None \<Rightarrow> [] | Some x \<Rightarrow> [x]) es)"

definition set_has :: "'a \<Rightarrow> 'a jsset \<Rightarrow> bool" where
  "set_has x es = (Some x \<in> set es)"

definition set_add :: "'a \<Rightarrow> 'a jsset \<Rightarrow> 'a jsset" where
  "set_add x es = (if Some x \<in> set es then es else es @ [Some x])"

definition set_delete :: "'a \<Rightarrow> 'a jsset \<Rightarrow> 'a jsset" where
  "set_delete x es = map (\<lambda>e. if e = Some x then None else e) es"

subsection \<open>Sessions, containers, the world\<close>

text \<open>
  A \<^verbatim>\<open>TerminalModel\<close> object is a reference into a heap of session records. The
  fields of a session are those of the specification's data model (section 3).
\<close>

type_synonym ref = nat

type_synonym pane = nat

datatype processState = Starting | Ready | Exited

datatype container = Center | LeftDock | RightDock | BottomDock

datatype item = TerminalItem ref | OtherItem

record session =
  address :: string
  processState :: processState
  container :: "container option"
  isActive :: bool

record cstate =
  isVisible :: bool
  activeItem :: "item option"

text \<open>Values of the keys of an options object handed to \<^verbatim>\<open>atom.workspace.open\<close>.\<close>

datatype jsval = JPane pane | JString string | JUndefined

type_synonym options = "string \<rightharpoonup> jsval"

text \<open>
  Calls that leave \<^verbatim>\<open>terminal.js\<close>: methods of a \<^verbatim>\<open>TerminalModel\<close>, the clipboard
  and the workspace. The world records each call in the order it is made. What a call
  does beyond being made is code of another file; where a theorem depends on it, it is a
  parameter of the caller.
\<close>

datatype call =
    ExitCall ref
  | RestartPtyProcessCall ref
  | CopyFromTerminalCall ref
  | PasteToTerminalCall ref string
  | RunCommandCall ref string
  | ClipboardReadCall
  | ClipboardWriteCall string
  | WorkspaceOpenCall string options

record world =
  terminalsSet :: "ref jsset"
  objs :: "ref \<Rightarrow> session"
  nextRef :: ref
  clipboard :: string
  calls :: "call list"

text \<open>The configuration keys \<^verbatim>\<open>terminal.js\<close> reads with \<^verbatim>\<open>atom.config.get\<close>.\<close>

record config =
  defaultOpenPosition :: string
  runInActive :: bool
  allowRelaunchingTerminalsOnStartup :: bool

text \<open>
  The active panes \<^verbatim>\<open>addDefaultPosition\<close> asks the workspace for; \<open>None\<close> is the
  falsy answer (no active pane).
\<close>

record workspace =
  activePane :: "pane option"
  bottomDockActivePane :: "pane option"
  leftDockActivePane :: "pane option"
  rightDockActivePane :: "pane option"

subsection \<open>The active terminal and the commands on it\<close>

text \<open>
  Modelled from the spec: \<^verbatim>\<open>TerminalModel.isActiveTerminal\<close> (model.js is missing); it
  reads the session's \<open>isActive\<close> flag.
\<close>

definition isActiveTerminal :: "session \<Rightarrow> bool" where
  "isActiveTerminal s = isActive s"

text \<open>
  \<^verbatim>\<open>getActiveTerminal\<close>: the set is spread into an array, and \<^verbatim>\<open>find\<close> returns the
  first element that says it is active, or \<^verbatim>\<open>undefined\<close>.
\<close>

definition getActiveTerminal :: "world \<Rightarrow> ref option" where
  "getActiveTerminal w =
     List.find (\<lambda>t. isActiveTerminal (objs w t)) (set_values (terminalsSet w))"

text \<open>
  \<^verbatim>\<open>terminal.exit()\<close>: the call is recorded; what it does to the set of terminals is
  the parameter \<open>fx\<close> (the method is in model.js, which holds a reference to the set).
\<close>

definition exit_call :: "(ref \<Rightarrow> ref jsset \<Rightarrow> ref jsset) \<Rightarrow> ref \<Rightarrow> world \<Rightarrow> world" where
  "exit_call fx t w =
     w\<lparr>calls := calls w @ [ExitCall t], terminalsSet := fx t (terminalsSet w)\<rparr>"

definition close :: "(ref \<Rightarrow> ref jsset \<Rightarrow> ref jsset) \<Rightarrow> world \<Rightarrow> world" where
  "close fx w =
     (case getActiveTerminal w of
        None \<Rightarrow> w
      | Some t \<Rightarrow> exit_call fx t w)"

definition restart :: "world \<Rightarrow> world" where
  "restart w =
     (case getActiveTerminal w of
        None \<Rightarrow> w
      | Some t \<Rightarrow> w\<lparr>calls := calls w @ [RestartPtyProcessCall t]\<rparr>)"

text \<open>
  \<^verbatim>\<open>copy\<close>: \<^verbatim>\<open>atom.clipboard.write(terminal.copyFromTerminal())\<close>; the text the
  terminal hands out is the parameter \<open>sel\<close>.
\<close>

definition copy :: "(ref \<Rightarrow> world \<Rightarrow> string) \<Rightarrow> world \<Rightarrow> world" where
  "copy sel w =
     (case getActiveTerminal w of
        None \<Rightarrow> w
      | Some t \<Rightarrow>
          w\<lparr>clipboard := sel t w,
            calls := calls w @ [CopyFromTerminalCall t, ClipboardWriteCall (sel t w)]\<rparr>)"

definition paste :: "world \<Rightarrow> world" where
  "paste w =
     (case getActiveTerminal w of
        None \<Rightarrow> w
      | Some t \<Rightarrow>
          w\<lparr>calls := calls w @ [ClipboardReadCall, PasteToTerminalCall t (clipboard w)]\<rparr>)"

subsection \<open>Default placement\<close>

text \<open>
  \<^verbatim>\<open>addDefaultPosition\<close>: a \<^verbatim>\<open>switch\<close> on the configured position. The
  source has two bodies, each written four times:
  \<^verbatim>\<open>if (pane && !('pane' in options)) { options.pane = pane }\<close> and
  \<^verbatim>\<open>if (!('split' in options)) { options.split = dir }\<close>, where \<^verbatim>\<open>'pane' in
  options\<close> is the presence of the key, whatever its value. The options object is
  changed in place and returned.
\<close>

definition setDefaultPane :: "pane option \<Rightarrow> options \<Rightarrow> options" where
  "setDefaultPane p opts =
     (case p of
        None \<Rightarrow> opts
      | Some pn \<Rightarrow> (if opts ''pane'' = None then opts(''pane'' \<mapsto> JPane pn) else opts))"

definition setDefaultSplit :: "string \<Rightarrow> options \<Rightarrow> options" where
  "setDefaultSplit dir opts =
     (if opts ''split'' = None then opts(''split'' \<mapsto> JString dir) else opts)"

definition addDefaultPosition :: "config \<Rightarrow> workspace \<Rightarrow> options \<Rightarrow> options" where
  "addDefaultPosition cfg ws opts =
     (let position = defaultOpenPosition cfg
      in if position = ''Center'' then setDefaultPane (activePane ws) opts
         else if position = ''Split Up'' then setDefaultSplit ''up'' opts
         else if position = ''Split Down'' then setDefaultSplit ''down'' opts
         else if position = ''Split Left'' then setDefaultSplit ''left'' opts
         else if position = ''Split Right'' then setDefaultSplit ''right'' opts
         else if position = ''Bottom Dock'' then setDefaultPane (bottomDockActivePane ws) opts
         else if position = ''Left Dock'' then setDefaultPane (leftDockActivePane ws) opts
         else if position = ''Right Dock'' then setDefaultPane (rightDockActivePane ws) opts
         else opts)"

text \<open>The pane a configured position designates, for the positions that designate one.\<close>

definition designatedPane :: "config \<Rightarrow> workspace \<Rightarrow> pane option" where
  "designatedPane cfg ws =
     (let position = defaultOpenPosition cfg
      in if position = ''Center'' then activePane ws
         else if position = ''Bottom Dock'' then bottomDockActivePane ws
         else if position = ''Left Dock'' then leftDockActivePane ws
         else if position = ''Right Dock'' then rightDockActivePane ws
         else None)"

definition recognizedPositions :: "string list" where
  "recognizedPositions =
     [''Center'', ''Split Up'', ''Split Down'', ''Split Left'', ''Split Right'',
      ''Bottom Dock'', ''Left Dock'', ''Right Dock'']"

definition panePositions :: "string list" where
  "panePositions = [''Center'', ''Bottom Dock'', ''Left Dock'', ''Right Dock'']"

subsection \<open>Addresses, the opener and the deserializer\<close>

definition TERMINAL_BASE_URI :: string where
  "TERMINAL_BASE_URI = ''terminal://''"

text \<open>
  \<^verbatim>\<open>generateNewUri\<close>: the prefix, then what \<^verbatim>\<open>uuidv4()\<close> returned (the parameter
  \<open>uuid\<close>: the generator is a library), then a slash.
\<close>

definition generateNewUri :: "string \<Rightarrow> string" where
  "generateNewUri uuid = TERMINAL_BASE_URI @ uuid @ ''/''"

text \<open>
  Modelled from the spec: the constructor of \<^verbatim>\<open>TerminalModel\<close> (model.js is missing),
  called as \<^verbatim>\<open>new TerminalModel({ uri, terminalsSet })\<close>. The new session is bound to
  the address, its process is starting, it is a member of the registry set from its
  creation on, and it is not active (only the recomputation sets that flag). The object
  is a fresh reference.
\<close>

definition newTerminalModel :: "string \<Rightarrow> world \<Rightarrow> ref \<times> world" where
  "newTerminalModel u w =
     (let r = nextRef w
      in (r, w\<lparr>terminalsSet := set_add r (terminalsSet w),
               objs := (objs w)(r := \<lparr>address = u, processState = Starting,
                                        container = None, isActive = False\<rparr>),
               nextRef := Suc r\<rparr>))"

text \<open>
  The opener handed to \<^verbatim>\<open>atom.workspace.addOpener\<close>. A string is the list of its
  bytes in UTF-8; the prefix is ASCII, so \<^verbatim>\<open>uri.startsWith(TERMINAL_BASE_URI)\<close> is
  \<open>prefix\<close> on lists. Without the prefix the callback returns \<^verbatim>\<open>undefined\<close>.
\<close>

definition opener :: "string \<Rightarrow> world \<Rightarrow> ref option \<times> world" where
  "opener u w =
     (if prefix TERMINAL_BASE_URI u
      then (case newTerminalModel u w of (item, w') \<Rightarrow> (Some item, w'))
      else (None, w))"

text \<open>A serialized session is the object \<^verbatim>\<open>{ uri }\<close>.\<close>

record serializedModel =
  uri :: string

definition deserializeTerminalModel ::
    "config \<Rightarrow> serializedModel \<Rightarrow> world \<Rightarrow> ref option \<times> world" where
  "deserializeTerminalModel cfg sm w =
     (if allowRelaunchingTerminalsOnStartup cfg
      then (case newTerminalModel (uri sm) w of (item, w') \<Rightarrow> (Some item, w'))
      else (None, w))"

subsection \<open>Exiting all terminals\<close>

text \<open>
  \<^verbatim>\<open>exitAllTerminals\<close>: \<^verbatim>\<open>for (const terminal of this.terminalsSet) terminal.exit()\<close>.
  The loop runs the iterator of the live set: at each step it looks at the entry at its
  index in the set as it is then. An \<^verbatim>\<open>exit\<close> that keeps adding terminals keeps the
  loop running, so the loop is a partial function and \<open>None\<close> is not returning.
\<close>

partial_function (option) exitLoop ::
    "(ref \<Rightarrow> ref jsset \<Rightarrow> ref jsset) \<Rightarrow> nat \<Rightarrow> world \<Rightarrow> world option" where
  "exitLoop fx i w =
     (if i < length (terminalsSet w)
      then (case terminalsSet w ! i of
              None \<Rightarrow> exitLoop fx (Suc i) w
            | Some t \<Rightarrow> exitLoop fx (Suc i) (exit_call fx t w))
      else Some w)"

definition exitAllTerminals :: "(ref \<Rightarrow> ref jsset \<Rightarrow> ref jsset) \<Rightarrow> world \<Rightarrow> world option" where
  "exitAllTerminals fx w = exitLoop fx 0 w"

text \<open>
  The specification's \<^verbatim>\<open>exitAll\<close>, following its words: a snapshot of the set is taken,
  and every session of the snapshot is exited.
\<close>

definition exitAll_snapshot :: "(ref \<Rightarrow> ref jsset \<Rightarrow> ref jsset) \<Rightarrow> world \<Rightarrow> world" where
  "exitAll_snapshot fx w = foldl (\<lambda>w' t. exit_call fx t w') w (set_values (terminalsSet w))"

text \<open>
  Modelled from the spec: what \<^verbatim>\<open>TerminalModel.exit\<close> (model.js is missing) does to the
  registry set: the session is removed from it on exit.
\<close>

definition selfRemoving :: "ref \<Rightarrow> ref jsset \<Rightarrow> ref jsset" where
  "selfRemoving t es = set_delete t es"

subsection \<open>Running commands\<close>

text \<open>
  \<^verbatim>\<open>runCommands\<close> is an \<^verbatim>\<open>async\<close> function with two \<^verbatim>\<open>await\<close>s. It is modelled
  as a task: \<open>runCommands\<close> runs the body up to the first \<^verbatim>\<open>await\<close> it reaches, and
  \<open>resume\<close> runs the task on from an event of the loop. A task suspended on a promise
  goes on only when that promise settles.
\<close>

datatype task =
    AwaitOpen "string list"
  | AwaitInitialized ref "string list"
  | Returned
  | Thrown string

datatype event =
    OpenFulfilled "ref option"
  | OpenRejected string
  | InitializedFulfilled ref
  | InitializedRejected ref string
  | SessionClosed ref

text \<open>\<^verbatim>\<open>this.open(uri, options)\<close> hands both to \<^verbatim>\<open>atom.workspace.open\<close>.\<close>

definition workspace_open :: "string \<Rightarrow> options \<Rightarrow> world \<Rightarrow> world" where
  "workspace_open u opts w = w\<lparr>calls := calls w @ [WorkspaceOpenCall u opts]\<rparr>"

text \<open>\<^verbatim>\<open>for (const command of commands) terminal.runCommand(command)\<close>.\<close>

fun runEach :: "ref \<Rightarrow> string list \<Rightarrow> world \<Rightarrow> world" where
  "runEach t [] w = w"
| "runEach t (c # cs) w = runEach t cs (w\<lparr>calls := calls w @ [RunCommandCall t c]\<rparr>)"

text \<open>
  The body up to the first \<^verbatim>\<open>await\<close>. \<open>uuid\<close> is what \<^verbatim>\<open>uuidv4()\<close> returns when the
  body asks for a new address.
\<close>

definition runCommands ::
    "config \<Rightarrow> workspace \<Rightarrow> string \<Rightarrow> string list \<Rightarrow> world \<Rightarrow> task \<times> world" where
  "runCommands cfg ws uuid commands w =
     (let terminal = (if runInActive cfg then getActiveTerminal w else None)
      in case terminal of
           None \<Rightarrow>
             (AwaitOpen commands,
              workspace_open (generateNewUri uuid) (addDefaultPosition cfg ws Map.empty) w)
         | Some t \<Rightarrow> (AwaitInitialized t commands, w))"

text \<open>
  The rest of the body. The promise of \<^verbatim>\<open>open\<close> fulfils with the item (reading
  \<^verbatim>\<open>element\<close> of \<^verbatim>\<open>undefined\<close> is a TypeError); the second \<^verbatim>\<open>await\<close> is on
  \<^verbatim>\<open>terminal.element.initializedPromise\<close> of the target and of no other terminal.
  Nothing else resumes the task.
\<close>

fun resume :: "task \<Rightarrow> event \<Rightarrow> world \<Rightarrow> task \<times> world" where
  "resume (AwaitOpen commands) (OpenFulfilled (Some t)) w = (AwaitInitialized t commands, w)"
| "resume (AwaitOpen commands) (OpenFulfilled None) w = (Thrown ''TypeError'', w)"
| "resume (AwaitOpen commands) (OpenRejected e) w = (Thrown e, w)"
| "resume (AwaitInitialized t commands) (InitializedFulfilled t') w =
     (if t' = t then (Returned, runEach t commands w) else (AwaitInitialized t commands, w))"
| "resume (AwaitInitialized t commands) (InitializedRejected t' e) w =
     (if t' = t then (Thrown e, w) else (AwaitInitialized t commands, w))"
| "resume tk _ w = (tk, w)"

subsection \<open>The registry and the recomputation of the active session\<close>

text \<open>
  Modelled from the spec: the fixed order in which the recomputation enumerates the
  containers (section 4.1, step 1); the code that would fix it is in model.js.
\<close>

definition priorityOrder :: "container list" where
  "priorityOrder = [Center, LeftDock, RightDock, BottomDock]"

text \<open>
  Modelled from the spec: the choice made by \<^verbatim>\<open>TerminalModel.recalculateActive\<close>
  (model.js is missing), steps 1 to 3 of the specification's \<^verbatim>\<open>recomputeActive\<close>
  (section 4.1). The containers are enumerated in the priority order; the first one that
  is visible and has an active item decides: if that item is a session, it is the one to
  mark; when no container is visible with an active item, there is none. \<open>cs\<close> is the
  state of the containers at the time of the signal.
\<close>

definition winner :: "(container \<Rightarrow> cstate) \<Rightarrow> ref option" where
  "winner cs =
     (case List.find (\<lambda>c. isVisible (cs c) \<and> activeItem (cs c) \<noteq> None) priorityOrder of
        None \<Rightarrow> None
      | Some c \<Rightarrow>
          (case activeItem (cs c) of
             Some (TerminalItem r) \<Rightarrow> Some r
           | _ \<Rightarrow> None))"

text \<open>
  Modelled from the spec: \<^verbatim>\<open>TerminalModel.recalculateActive\<close> (model.js is missing),
  called by every observer of \<^verbatim>\<open>terminal.js\<close>. The chosen session is marked active and
  every other session becomes inactive; nothing but the flags changes.
\<close>

definition recalculateActive :: "(container \<Rightarrow> cstate) \<Rightarrow> world \<Rightarrow> world" where
  "recalculateActive cs w =
     w\<lparr>objs := (\<lambda>r. (objs w r)\<lparr>isActive := (winner cs = Some r)\<rparr>)\<rparr>"

text \<open>
  Modelled from the spec: \<^verbatim>\<open>register\<close> of the registry (the code that adds a session to
  the set is in model.js). The session is added to the set, which is left as it is when
  the session is a member, and the recomputation is triggered.
\<close>

definition register :: "ref \<Rightarrow> (container \<Rightarrow> cstate) \<Rightarrow> world \<Rightarrow> world" where
  "register r cs w = recalculateActive cs (w\<lparr>terminalsSet := set_add r (terminalsSet w)\<rparr>)"

text \<open>
  Modelled from the spec: \<^verbatim>\<open>unregister\<close> of the registry (the code that removes a
  session from the set is in model.js). The session is removed from the set, and the
  recomputation runs if it was active.
\<close>

definition unregister :: "ref \<Rightarrow> (container \<Rightarrow> cstate) \<Rightarrow> world \<Rightarrow> world" where
  "unregister r cs w =
     (let wasActive = set_has r (terminalsSet w) \<and> isActive (objs w r);
          w' = w\<lparr>terminalsSet := set_delete r (terminalsSet w)\<rparr>
      in if wasActive then recalculateActive cs w' else w')"

text \<open>The operations of the registry, each with the state of the containers it sees.\<close>

datatype registryOp =
    Register ref "container \<Rightarrow> cstate"
  | Unregister ref "container \<Rightarrow> cstate"
  | RecomputeActive "container \<Rightarrow> cstate"

fun applyOp :: "registryOp \<Rightarrow> world \<Rightarrow> world" where
  "applyOp (Register r cs) w = register r cs w"
| "applyOp (Unregister r cs) w = unregister r cs w"
| "applyOp (RecomputeActive cs) w = recalculateActive cs w"

fun applyOps :: "registryOp list \<Rightarrow> world \<Rightarrow> world" where
  "applyOps [] w = w"
| "applyOps (x # xs) w = applyOps xs (applyOp x w)"

text \<open>The sessions of the registry whose flag is set, in the order of the set.\<close>

definition activeSessions :: "world \<Rightarrow> ref list" where
  "activeSessions w = filter (\<lambda>t. isActive (objs w t)) (set_values (terminalsSet w))"


text \<open>
  The place of a container in the priority order (smaller is higher): the number of
  containers enumerated before it.
\<close>

definition rank :: "container \<Rightarrow> nat" where
  "rank c = length (takeWhile (\<lambda>d. d \<noteq> c) priorityOrder)"

text \<open>
  The invariant of the registry: the set holds each session once, and at most one of
  its sessions is flagged active.
\<close>

definition registryInv :: "world \<Rightarrow> bool" where
  "registryInv w \<longleftrightarrow> distinct (set_values (terminalsSet w)) \<and> length (activeSessions w) \<le> 1"

subsection \<open>Concrete inputs\<close>

definition cfgCenter :: config where
  "cfgCenter = \<lparr>defaultOpenPosition = ''Center'', runInActive = True,
                 allowRelaunchingTerminalsOnStartup = True\<rparr>"

definition cfgUnknown :: config where
  "cfgUnknown = \<lparr>defaultOpenPosition = ''Top Dock'', runInActive = False,
                  allowRelaunchingTerminalsOnStartup = False\<rparr>"

definition wsAll :: workspace where
  "wsAll = \<lparr>activePane = Some 1, bottomDockActivePane = Some 2,
             leftDockActivePane = Some 3, rightDockActivePane = Some 4\<rparr>"

definition wsNoCenter :: workspace where
  "wsNoCenter = \<lparr>activePane = None, bottomDockActivePane = Some 2,
                  leftDockActivePane = Some 3, rightDockActivePane = Some 4\<rparr>"

definition someSession :: "bool \<Rightarrow> session" where
  "someSession a = \<lparr>address = ''terminal://a/'', processState = Starting,
                     container = Some Center, isActive = a\<rparr>"

definition emptyWorld :: world where
  "emptyWorld = \<lparr>terminalsSet = [], objs = (\<lambda>_. someSession False), nextRef = 0,
                  clipboard = ''kept'', calls = []\<rparr>"

text \<open>Two terminals and the slot of one that has gone; none is active.\<close>

definition idleWorld :: world where
  "idleWorld = \<lparr>terminalsSet = [Some 0, None, Some 2], objs = (\<lambda>_. someSession False),
                 nextRef = 3, clipboard = ''kept'', calls = []\<rparr>"

definition activeWorld :: world where
  "activeWorld = \<lparr>terminalsSet = [Some 0], objs = (\<lambda>_. someSession True), nextRef = 1,
                   clipboard = ''kept'', calls = []\<rparr>"

definition twoTerminals :: world where
  "twoTerminals = \<lparr>terminalsSet = [Some 0, Some 1], objs = (\<lambda>_. someSession False),
                    nextRef = 2, clipboard = ''kept'', calls = []\<rparr>"

text \<open>An \<^verbatim>\<open>exit\<close> of terminal 0 that also takes terminal 1 out of the set.\<close>

definition siblingExit :: "ref \<Rightarrow> ref jsset \<Rightarrow> ref jsset" where
  "siblingExit t es = (if t = 0 then set_delete 1 (set_delete 0 es) else set_delete t es)"

definition hidden :: cstate where
  "hidden = \<lparr>isVisible = False, activeItem = None\<rparr>"

definition showing :: "ref \<Rightarrow> cstate" where
  "showing r = \<lparr>isVisible = True, activeItem = Some (TerminalItem r)\<rparr>"

text \<open>The center shows terminal 1 focused; the docks are hidden.\<close>

definition centerFocused :: "container \<Rightarrow> cstate" where
  "centerFocused c = (if c = Center then showing 1 else hidden)"




text \<open>A configuration with a given default position and \<^verbatim>\<open>runInActive\<close> unset.\<close>

definition cfgAt :: "string \<Rightarrow> config" where
  "cfgAt position = \<lparr>defaultOpenPosition = position, runInActive = False,
                      allowRelaunchingTerminalsOnStartup = False\<rparr>"

definition sampleOps :: "registryOp list" where
  "sampleOps = [Register 0 centerFocused, Register 1 centerFocused, Unregister 0 centerFocused]"

section \<open>Theorems\<close>

subsection \<open>The set\<close>

lemma set_values_Nil [simp]: "set_values [] = []"
  by (simp add: set_values_def)

lemma set_values_Cons_None [simp]: "set_values (None # es) = set_values es"
  by (simp add: set_values_def)

lemma set_values_Cons_Some [simp]: "set_values (Some x # es) = x # set_values es"
  by (simp add: set_values_def)

lemma set_values_append [simp]: "set_values (xs @ ys) = set_values xs @ set_values ys"
  by (simp add: set_values_def)

lemma set_set_values: "set (set_values es) = {x. Some x \<in> set es}"
proof (induction es)
  case Nil
  then show ?case by simp
next
  case (Cons e es)
  then show ?case by (cases e) auto
qed

lemma set_values_replicate_None [simp]: "set_values (replicate n None) = []"
  by (induction n) simp_all

lemma set_delete_absent: "Some t \<notin> set es \<Longrightarrow> set_delete t es = es"
  by (induction es) (auto simp: set_delete_def)

lemma set_delete_Cons: "set_delete t (e # es) = (if e = Some t then None else e) # set_delete t es"
  by (simp add: set_delete_def)

lemma set_delete_at:
  "distinct (set_values es) \<Longrightarrow> i < length es \<Longrightarrow> es ! i = Some t \<Longrightarrow>
     set_delete t es = es[i := None]"
proof (induction es arbitrary: i)
  case Nil
  then show ?case by simp
next
  case (Cons e es)
  show ?case
  proof (cases i)
    case 0
    with Cons.prems have e: "e = Some t" and "t \<notin> set (set_values es)" by auto
    then have "Some t \<notin> set es" by (simp add: set_set_values)
    then show ?thesis using e 0 by (simp add: set_delete_Cons set_delete_absent)
  next
    case (Suc j)
    with Cons.prems have j: "j < length es" "es ! j = Some t" by auto
    then have mem: "Some t \<in> set es" by (metis nth_mem)
    have d: "distinct (set_values es)" using Cons.prems(1) by (cases e) auto
    have "e \<noteq> Some t"
    proof
      assume "e = Some t"
      with Cons.prems(1) have "t \<notin> set (set_values es)" by auto
      with mem show False by (simp add: set_set_values)
    qed
    then show ?thesis using Suc Cons.IH [OF d j] by (simp add: set_delete_Cons)
  qed
qed

lemma set_values_drop_None:
  "i < length es \<Longrightarrow> es ! i = None \<Longrightarrow> set_values (drop i es) = set_values (drop (Suc i) es)"
  by (simp add: Cons_nth_drop_Suc [symmetric])

lemma set_values_drop_Some:
  "i < length es \<Longrightarrow> es ! i = Some t \<Longrightarrow> set_values (drop i es) = t # set_values (drop (Suc i) es)"
  by (simp add: Cons_nth_drop_Suc [symmetric])

lemma distinct_set_values_update:
  "distinct (set_values es) \<Longrightarrow> distinct (set_values (es[i := None]))"
proof (induction es arbitrary: i)
  case Nil
  then show ?case by simp
next
  case (Cons e es)
  have sub: "set (set_values (es[j := None])) \<subseteq> set (set_values es)" for j
    by (auto simp: set_set_values dest: set_update_subset_insert [THEN subsetD])
  show ?case
  proof (cases i)
    case 0
    then show ?thesis using Cons.prems by (cases e) auto
  next
    case (Suc j)
    then show ?thesis using Cons sub [of j] by (cases e) auto
  qed
qed

lemma set_values_set_delete: "set_values (set_delete r es) = removeAll r (set_values es)"
proof (induction es)
  case Nil
  then show ?case by (simp add: set_delete_def)
next
  case (Cons e es)
  then show ?case by (cases e) (auto simp: set_delete_Cons)
qed

lemma distinct_set_add:
  "distinct (set_values es) \<Longrightarrow> distinct (set_values (set_add r es))"
  by (simp add: set_add_def set_set_values)

lemma distinct_set_delete:
  "distinct (set_values es) \<Longrightarrow> distinct (set_values (set_delete r es))"
  by (simp add: set_values_set_delete distinct_removeAll)

lemma set_has_set_add: "set_has r (set_add r es)"
  by (simp add: set_has_def set_add_def)

subsection \<open>The registry invariant\<close>

lemma find_filter_conv:
  "List.find P xs = (case filter P xs of [] \<Rightarrow> None | x # _ \<Rightarrow> Some x)"
  by (induction xs) simp_all

lemma getActiveTerminal_activeSessions:
  "getActiveTerminal w = (case activeSessions w of [] \<Rightarrow> None | t # _ \<Rightarrow> Some t)"
  by (simp add: getActiveTerminal_def activeSessions_def isActiveTerminal_def find_filter_conv)

lemma filter_eq_distinct_le1: "distinct xs \<Longrightarrow> length (filter (\<lambda>t. a = Some t) xs) \<le> 1"
proof (induction xs)
  case Nil
  then show ?case by simp
next
  case (Cons x xs)
  show ?case
  proof (cases "a = Some x")
    case True
    with Cons.prems have "filter (\<lambda>t. a = Some t) xs = []"
      by (auto simp: filter_empty_conv)
    with True show ?thesis by simp
  next
    case False
    with Cons show ?thesis by simp
  qed
qed

lemma activeSessions_recalculateActive:
  "activeSessions (recalculateActive cs w) =
     filter (\<lambda>t. winner cs = Some t) (set_values (terminalsSet w))"
  by (simp add: activeSessions_def recalculateActive_def)

lemma registryInv_recalculateActive:
  "distinct (set_values (terminalsSet w)) \<Longrightarrow> registryInv (recalculateActive cs w)"
proof -
  assume d: "distinct (set_values (terminalsSet w))"
  have "length (activeSessions (recalculateActive cs w)) \<le> 1"
    unfolding activeSessions_recalculateActive using d by (rule filter_eq_distinct_le1)
  moreover have "terminalsSet (recalculateActive cs w) = terminalsSet w"
    by (simp add: recalculateActive_def)
  ultimately show ?thesis using d by (simp add: registryInv_def)
qed

lemma registryInv_register: "registryInv w \<Longrightarrow> registryInv (register r cs w)"
  unfolding register_def
  by (rule registryInv_recalculateActive) (simp add: registryInv_def distinct_set_add)

lemma length_filter_removeAll: "length (filter P (removeAll r xs)) \<le> length (filter P xs)"
  by (induction xs) auto

lemma registryInv_unregister: "registryInv w \<Longrightarrow> registryInv (unregister r cs w)"
proof -
  assume inv: "registryInv w"
  let ?w' = "w\<lparr>terminalsSet := set_delete r (terminalsSet w)\<rparr>"
  have d: "distinct (set_values (terminalsSet ?w'))"
    using inv by (simp add: registryInv_def distinct_set_delete)
  have "length (activeSessions ?w') \<le> length (activeSessions w)"
    by (simp add: activeSessions_def set_values_set_delete length_filter_removeAll)
  with inv d have "registryInv ?w'" by (simp add: registryInv_def)
  moreover have "registryInv (recalculateActive cs ?w')"
    using d by (rule registryInv_recalculateActive)
  ultimately show ?thesis by (simp add: unregister_def Let_def)
qed

lemma registryInv_applyOp: "registryInv (applyOp x w)" if "registryInv w"
proof (cases x)
  case (Register r cs)
  then show ?thesis using that by (simp add: registryInv_register)
next
  case (Unregister r cs)
  then show ?thesis using that by (simp add: registryInv_unregister)
next
  case (RecomputeActive cs)
  from that have "distinct (set_values (terminalsSet w))" by (simp add: registryInv_def)
  then show ?thesis using RecomputeActive by (simp add: registryInv_recalculateActive)
qed

lemma registryInv_applyOps: "registryInv w \<Longrightarrow> registryInv (applyOps xs w)"
  by (induction xs arbitrary: w) (simp_all add: registryInv_applyOp)

lemma registryInv_cases:
  assumes "registryInv w"
  shows "activeSessions w = [] \<and> getActiveTerminal w = None \<or>
         (\<exists>t. activeSessions w = [t] \<and> getActiveTerminal w = Some t)"
proof (cases "activeSessions w")
  case Nil
  then show ?thesis by (simp add: getActiveTerminal_activeSessions)
next
  case (Cons t ts)
  with assms have "ts = []" by (simp add: registryInv_def)
  with Cons show ?thesis by (simp add: getActiveTerminal_activeSessions)
qed

text \<open>
  Claim C1. Whatever sequence of register, unregister and recomputeActive operations is
  applied to the empty registry the constructor of \<^verbatim>\<open>Terminal\<close> makes, at most one
  session of the registry is flagged active afterwards, and \<^verbatim>\<open>getActiveTerminal\<close>
  returns that session when there is one and nothing when there is none. Every prefix of
  a sequence is a sequence, so this holds at any time.
\<close>

theorem at_most_one_active:
  "terminalsSet w = [] \<Longrightarrow>
     activeSessions (applyOps xs w) = [] \<and> getActiveTerminal (applyOps xs w) = None \<or>
     (\<exists>t. activeSessions (applyOps xs w) = [t] \<and> getActiveTerminal (applyOps xs w) = Some t)"
proof -
  assume "terminalsSet w = []"
  then have "registryInv w" by (simp add: registryInv_def activeSessions_def)
  then have "registryInv (applyOps xs w)" by (rule registryInv_applyOps)
  then show ?thesis by (rule registryInv_cases)
qed

text \<open>The hypothesis of C1 holds of a world, and the theorem gives the result there.\<close>

theorem at_most_one_active_witness:
  "terminalsSet emptyWorld = [] \<and>
   activeSessions (applyOps sampleOps emptyWorld) = [1] \<and>
   getActiveTerminal (applyOps sampleOps emptyWorld) = Some 1"
proof -
  have e: "terminalsSet emptyWorld = []" by (simp add: emptyWorld_def)
  have w: "winner centerFocused = Some 1"
    by (simp add: winner_def priorityOrder_def centerFocused_def showing_def)
  have a: "activeSessions (applyOps sampleOps emptyWorld) = [1]"
    by (simp add: sampleOps_def register_def unregister_def recalculateActive_def w
        activeSessions_def set_add_def set_delete_def set_has_def e)
  show ?thesis using e a at_most_one_active [OF e, of sampleOps] by simp
qed

subsection \<open>The priority of the containers\<close>

lemma rank_values [simp]:
  "rank Center = 0" "rank LeftDock = 1" "rank RightDock = 2" "rank BottomDock = 3"
  by (simp_all add: rank_def priorityOrder_def)









subsection \<open>Exiting all terminals\<close>

lemma exitLoop_empty:
  "set_values (drop i (terminalsSet w)) = [] \<Longrightarrow> n = length (terminalsSet w) - i \<Longrightarrow>
     exitLoop fx i w = Some w"
proof (induction n arbitrary: i)
  case 0
  then show ?case by (subst exitLoop.simps) simp
next
  case (Suc n)
  from Suc.prems have i: "i < length (terminalsSet w)" by simp
  have e: "terminalsSet w ! i = None"
  proof (cases "terminalsSet w ! i")
    case None
    then show ?thesis .
  next
    case (Some t)
    with i Suc.prems(1) show ?thesis by (simp add: set_values_drop_Some)
  qed
  have r: "set_values (drop (Suc i) (terminalsSet w)) = []"
    using i e Suc.prems(1) by (simp add: set_values_drop_None)
  have n: "n = length (terminalsSet w) - Suc i" using Suc.prems by simp
  show ?case using i e Suc.IH [OF r n] by (subst exitLoop.simps) simp
qed

lemma exitLoop_selfRemoving:
  "distinct (set_values (terminalsSet w)) \<Longrightarrow> n = length (terminalsSet w) - i \<Longrightarrow>
     exitLoop selfRemoving i w =
       Some (w\<lparr>calls := calls w @ map ExitCall (set_values (drop i (terminalsSet w))),
              terminalsSet := take i (terminalsSet w) @ replicate (length (terminalsSet w) - i) None\<rparr>)"
proof (induction n arbitrary: i w)
  case 0
  then show ?case by (subst exitLoop.simps) simp
next
  case (Suc n)
  let ?es = "terminalsSet w"
  from Suc.prems have i: "i < length ?es" by simp
  show ?case
  proof (cases "?es ! i")
    case None
    have n: "n = length ?es - Suc i" using Suc.prems by simp
    have tk: "take (Suc i) ?es = take i ?es @ [None]"
      using i None by (simp add: take_Suc_conv_app_nth)
    have rp: "replicate (length ?es - i) None = (None :: ref option) # replicate (length ?es - Suc i) None"
      using i by (metis Suc_diff_Suc replicate_Suc)
    show ?thesis
      using i None Suc.IH [OF Suc.prems(1) n]
      by (subst exitLoop.simps) (simp add: set_values_drop_None tk rp)
  next
    case (Some t)
    let ?w' = "w\<lparr>calls := calls w @ [ExitCall t], terminalsSet := ?es[i := None]\<rparr>"
    have step: "exit_call selfRemoving t w = ?w'"
      using set_delete_at [OF Suc.prems(1) i Some] by (simp add: exit_call_def selfRemoving_def)
    have d': "distinct (set_values (terminalsSet ?w'))"
      using Suc.prems(1) by (simp add: distinct_set_values_update)
    have n: "n = length (terminalsSet ?w') - Suc i" using Suc.prems by simp
    have tk: "take (Suc i) (?es[i := None]) = take i ?es @ [None]"
      using i by (simp add: take_Suc_conv_app_nth)
    have rp: "replicate (length ?es - i) None = (None :: ref option) # replicate (length ?es - Suc i) None"
      using i by (metis Suc_diff_Suc replicate_Suc)
    show ?thesis
      using i Some Suc.IH [OF d' n]
      by (subst exitLoop.simps) (simp add: step tk rp set_values_drop_Some)
  qed
qed

text \<open>
  Claim C3, as the code has it. \<^verbatim>\<open>exitAllTerminals\<close> walks the live set. With no session
  in the set it returns at once and changes nothing, whatever \<^verbatim>\<open>exit\<close> would do. When
  each \<^verbatim>\<open>exit\<close> removes its own session from the set, the loop returns, \<^verbatim>\<open>exit\<close> has
  been called on every session of the set once, in insertion order, and the set has no
  member left.
\<close>

theorem exitAllTerminals_live_set:
  "(set_values (terminalsSet w) = [] \<longrightarrow> exitAllTerminals fx w = Some w) \<and>
   (distinct (set_values (terminalsSet w)) \<longrightarrow>
      (\<exists>w'. exitAllTerminals selfRemoving w = Some w' \<and>
         calls w' = calls w @ map ExitCall (set_values (terminalsSet w)) \<and>
         set_values (terminalsSet w') = [] \<and>
         w' = w\<lparr>calls := calls w @ map ExitCall (set_values (terminalsSet w)),
                terminalsSet := replicate (length (terminalsSet w)) None\<rparr>))"
proof (intro conjI impI)
  assume "set_values (terminalsSet w) = []"
  then show "exitAllTerminals fx w = Some w"
    using exitLoop_empty [of 0 w _ fx] by (simp add: exitAllTerminals_def)
next
  assume "distinct (set_values (terminalsSet w))"
  then have "exitAllTerminals selfRemoving w =
       Some (w\<lparr>calls := calls w @ map ExitCall (set_values (terminalsSet w)),
              terminalsSet := replicate (length (terminalsSet w)) None\<rparr>)"
    using exitLoop_selfRemoving [of w _ 0] by (simp add: exitAllTerminals_def)
  then show "\<exists>w'. exitAllTerminals selfRemoving w = Some w' \<and>
         calls w' = calls w @ map ExitCall (set_values (terminalsSet w)) \<and>
         set_values (terminalsSet w') = [] \<and>
         w' = w\<lparr>calls := calls w @ map ExitCall (set_values (terminalsSet w)),
                terminalsSet := replicate (length (terminalsSet w)) None\<rparr>"
    by simp
qed

text \<open>
  C3 at two inputs: the empty set, and a set of two sessions and the slot of a deleted
  one.
\<close>

theorem exitAllTerminals_live_set_witness:
  "set_values (terminalsSet emptyWorld) = [] \<and>
   exitAllTerminals siblingExit emptyWorld = Some emptyWorld \<and>
   distinct (set_values (terminalsSet idleWorld)) \<and>
   exitAllTerminals selfRemoving idleWorld =
     Some (idleWorld\<lparr>calls := [ExitCall 0, ExitCall 2], terminalsSet := [None, None, None]\<rparr>)"
proof -
  have e: "set_values (terminalsSet emptyWorld) = []" by (simp add: emptyWorld_def)
  have i: "terminalsSet idleWorld = [Some 0, None, Some 2]" "calls idleWorld = []"
    by (simp_all add: idleWorld_def)
  have r: "replicate 3 None = [None, None, None :: ref option]"
    by (simp add: numeral_3_eq_3)
  show ?thesis
    using e exitAllTerminals_live_set [of emptyWorld siblingExit]
      exitAllTerminals_live_set [of idleWorld siblingExit]
    by (auto simp: i r)
qed

text \<open>
  The loop does not iterate a snapshot. When the \<^verbatim>\<open>exit\<close> of terminal 0 also removes
  terminal 1 from the set, the loop of the code never calls \<^verbatim>\<open>exit\<close> on terminal 1,
  while an iteration over a copy of the set taken at the start exits both.
\<close>

theorem exitAllTerminals_snapshot_counterexample:
  "map_option calls (exitAllTerminals siblingExit twoTerminals) = Some [ExitCall 0] \<and>
   calls (exitAll_snapshot siblingExit twoTerminals) = [ExitCall 0, ExitCall 1]"
  by (simp add: exitAllTerminals_def exitLoop.simps exitAll_snapshot_def twoTerminals_def
      exit_call_def siblingExit_def set_delete_def)

subsection \<open>Running commands\<close>

lemma runEach_calls: "runEach t cs w = w\<lparr>calls := calls w @ map (RunCommandCall t) cs\<rparr>"
  by (induction cs arbitrary: w) simp_all

lemma resume_other:
  "ev \<noteq> InitializedFulfilled t \<Longrightarrow> \<forall>e. ev \<noteq> InitializedRejected t e \<Longrightarrow>
     resume (AwaitInitialized t commands) ev w = (AwaitInitialized t commands, w)"
  by (cases ev) auto

lemma resume_open_other:
  "\<forall>x. ev \<noteq> OpenFulfilled x \<Longrightarrow> \<forall>e. ev \<noteq> OpenRejected e \<Longrightarrow>
     resume (AwaitOpen commands) ev w = (AwaitOpen commands, w)"
  by (cases ev) auto

lemma getActiveTerminal_activeWorld: "getActiveTerminal activeWorld = Some 0"
  by (simp add: getActiveTerminal_def activeWorld_def set_values_def isActiveTerminal_def
      someSession_def)

lemma addDefaultPosition_empty_pane:
  "defaultOpenPosition cfg \<in> set panePositions \<Longrightarrow> designatedPane cfg ws = Some p \<Longrightarrow>
     addDefaultPosition cfg ws Map.empty = [''pane'' \<mapsto> JPane p]"
  by (auto simp: addDefaultPosition_def panePositions_def designatedPane_def setDefaultPane_def)

lemma addDefaultPosition_empty_no_pane:
  "defaultOpenPosition cfg \<in> set panePositions \<Longrightarrow> designatedPane cfg ws = None \<Longrightarrow>
     addDefaultPosition cfg ws Map.empty = Map.empty"
  by (auto simp: addDefaultPosition_def panePositions_def designatedPane_def setDefaultPane_def)

lemma addDefaultPosition_empty_split:
  "defaultOpenPosition cfg = ''Split Up'' \<Longrightarrow>
     addDefaultPosition cfg ws Map.empty = [''split'' \<mapsto> JString ''up'']"
  "defaultOpenPosition cfg = ''Split Down'' \<Longrightarrow>
     addDefaultPosition cfg ws Map.empty = [''split'' \<mapsto> JString ''down'']"
  "defaultOpenPosition cfg = ''Split Left'' \<Longrightarrow>
     addDefaultPosition cfg ws Map.empty = [''split'' \<mapsto> JString ''left'']"
  "defaultOpenPosition cfg = ''Split Right'' \<Longrightarrow>
     addDefaultPosition cfg ws Map.empty = [''split'' \<mapsto> JString ''right'']"
  by (simp_all add: addDefaultPosition_def setDefaultSplit_def)

lemma addDefaultPosition_empty_unknown:
  "defaultOpenPosition cfg \<notin> set recognizedPositions \<Longrightarrow>
     addDefaultPosition cfg ws Map.empty = Map.empty"
  by (simp add: addDefaultPosition_def recognizedPositions_def)

lemma runCommands_active:
  "runInActive cfg \<Longrightarrow> activeSessions w = t # ts \<Longrightarrow>
     runCommands cfg ws uuid commands w = (AwaitInitialized t commands, w)"
  by (simp add: runCommands_def getActiveTerminal_activeSessions)

lemma runCommands_opens:
  "\<not> (runInActive cfg \<and> activeSessions w \<noteq> []) \<Longrightarrow>
     runCommands cfg ws uuid commands w =
       (AwaitOpen commands,
        w\<lparr>calls := calls w @
             [WorkspaceOpenCall (''terminal://'' @ uuid @ ''/'')
                (addDefaultPosition cfg ws Map.empty)]\<rparr>)"
proof -
  assume "\<not> (runInActive cfg \<and> activeSessions w \<noteq> [])"
  then have "(if runInActive cfg then getActiveTerminal w else None) = None"
    by (auto simp: getActiveTerminal_activeSessions)
  then show ?thesis
    by (simp add: runCommands_def workspace_open_def generateNewUri_def TERMINAL_BASE_URI_def)
qed

text \<open>
  Claim C4. For every list of commands: when \<^verbatim>\<open>runInActive\<close> is set and a session of the
  set is flagged active, that session is the target and nothing is opened; otherwise the
  workspace is asked to open the address \<^verbatim>\<open>terminal://\<close>, token, slash, with the default
  placement, and the task waits for the item, which becomes the target. The default
  placement is the configured one: the active pane of the center or of the configured
  dock under the key \<^verbatim>\<open>pane\<close>, or the configured direction under the key \<^verbatim>\<open>split\<close>, and
  no key when that pane is missing or the position is unknown. The task then stays
  suspended, submitting nothing, until the promise of the target's initialization
  settles; when it is fulfilled, each command of the list is submitted to the target, in
  the order of the list, and the task returns.
\<close>

theorem runCommands_target_then_ready_then_commands:
  "(runInActive cfg \<and> activeSessions w = t # ts \<longrightarrow>
      runCommands cfg ws uuid commands w = (AwaitInitialized t commands, w)) \<and>
   (\<not> (runInActive cfg \<and> activeSessions w \<noteq> []) \<longrightarrow>
      runCommands cfg ws uuid commands w =
        (AwaitOpen commands,
         w\<lparr>calls := calls w @
              [WorkspaceOpenCall (''terminal://'' @ uuid @ ''/'')
                 (addDefaultPosition cfg ws Map.empty)]\<rparr>)) \<and>
   (defaultOpenPosition cfg = ''Center'' \<and> activePane ws = Some p \<longrightarrow>
      addDefaultPosition cfg ws Map.empty = [''pane'' \<mapsto> JPane p]) \<and>
   (defaultOpenPosition cfg = ''Bottom Dock'' \<and> bottomDockActivePane ws = Some p \<longrightarrow>
      addDefaultPosition cfg ws Map.empty = [''pane'' \<mapsto> JPane p]) \<and>
   (defaultOpenPosition cfg = ''Left Dock'' \<and> leftDockActivePane ws = Some p \<longrightarrow>
      addDefaultPosition cfg ws Map.empty = [''pane'' \<mapsto> JPane p]) \<and>
   (defaultOpenPosition cfg = ''Right Dock'' \<and> rightDockActivePane ws = Some p \<longrightarrow>
      addDefaultPosition cfg ws Map.empty = [''pane'' \<mapsto> JPane p]) \<and>
   (defaultOpenPosition cfg = ''Split Up'' \<longrightarrow>
      addDefaultPosition cfg ws Map.empty = [''split'' \<mapsto> JString ''up'']) \<and>
   (defaultOpenPosition cfg = ''Split Down'' \<longrightarrow>
      addDefaultPosition cfg ws Map.empty = [''split'' \<mapsto> JString ''down'']) \<and>
   (defaultOpenPosition cfg = ''Split Left'' \<longrightarrow>
      addDefaultPosition cfg ws Map.empty = [''split'' \<mapsto> JString ''left'']) \<and>
   (defaultOpenPosition cfg = ''Split Right'' \<longrightarrow>
      addDefaultPosition cfg ws Map.empty = [''split'' \<mapsto> JString ''right'']) \<and>
   (defaultOpenPosition cfg \<in> set panePositions \<and> designatedPane cfg ws = None \<longrightarrow>
      addDefaultPosition cfg ws Map.empty = Map.empty) \<and>
   (defaultOpenPosition cfg \<notin> set recognizedPositions \<longrightarrow>
      addDefaultPosition cfg ws Map.empty = Map.empty) \<and>
   ((\<forall>x. ev \<noteq> OpenFulfilled x) \<and> (\<forall>e. ev \<noteq> OpenRejected e) \<longrightarrow>
      resume (AwaitOpen commands) ev w = (AwaitOpen commands, w)) \<and>
   resume (AwaitOpen commands) (OpenFulfilled (Some t)) w = (AwaitInitialized t commands, w) \<and>
   (ev \<noteq> InitializedFulfilled t \<and> (\<forall>e. ev \<noteq> InitializedRejected t e) \<longrightarrow>
      resume (AwaitInitialized t commands) ev w = (AwaitInitialized t commands, w)) \<and>
   resume (AwaitInitialized t commands) (InitializedFulfilled t) w =
     (Returned, w\<lparr>calls := calls w @ map (RunCommandCall t) commands\<rparr>)"
proof (intro conjI impI)
  assume "runInActive cfg \<and> activeSessions w = t # ts"
  then show "runCommands cfg ws uuid commands w = (AwaitInitialized t commands, w)"
    by (simp add: runCommands_active)
next
  assume "\<not> (runInActive cfg \<and> activeSessions w \<noteq> [])"
  then show "runCommands cfg ws uuid commands w =
        (AwaitOpen commands,
         w\<lparr>calls := calls w @
              [WorkspaceOpenCall (''terminal://'' @ uuid @ ''/'')
                 (addDefaultPosition cfg ws Map.empty)]\<rparr>)"
    by (rule runCommands_opens)
next
  assume "defaultOpenPosition cfg = ''Center'' \<and> activePane ws = Some p"
  then show "addDefaultPosition cfg ws Map.empty = [''pane'' \<mapsto> JPane p]"
    by (intro addDefaultPosition_empty_pane) (simp_all add: panePositions_def designatedPane_def)
next
  assume "defaultOpenPosition cfg = ''Bottom Dock'' \<and> bottomDockActivePane ws = Some p"
  then show "addDefaultPosition cfg ws Map.empty = [''pane'' \<mapsto> JPane p]"
    by (intro addDefaultPosition_empty_pane) (simp_all add: panePositions_def designatedPane_def)
next
  assume "defaultOpenPosition cfg = ''Left Dock'' \<and> leftDockActivePane ws = Some p"
  then show "addDefaultPosition cfg ws Map.empty = [''pane'' \<mapsto> JPane p]"
    by (intro addDefaultPosition_empty_pane) (simp_all add: panePositions_def designatedPane_def)
next
  assume "defaultOpenPosition cfg = ''Right Dock'' \<and> rightDockActivePane ws = Some p"
  then show "addDefaultPosition cfg ws Map.empty = [''pane'' \<mapsto> JPane p]"
    by (intro addDefaultPosition_empty_pane) (simp_all add: panePositions_def designatedPane_def)
next
  assume "defaultOpenPosition cfg = ''Split Up''"
  then show "addDefaultPosition cfg ws Map.empty = [''split'' \<mapsto> JString ''up'']"
    by (rule addDefaultPosition_empty_split)
next
  assume "defaultOpenPosition cfg = ''Split Down''"
  then show "addDefaultPosition cfg ws Map.empty = [''split'' \<mapsto> JString ''down'']"
    by (rule addDefaultPosition_empty_split)
next
  assume "defaultOpenPosition cfg = ''Split Left''"
  then show "addDefaultPosition cfg ws Map.empty = [''split'' \<mapsto> JString ''left'']"
    by (rule addDefaultPosition_empty_split)
next
  assume "defaultOpenPosition cfg = ''Split Right''"
  then show "addDefaultPosition cfg ws Map.empty = [''split'' \<mapsto> JString ''right'']"
    by (rule addDefaultPosition_empty_split)
next
  assume "defaultOpenPosition cfg \<in> set panePositions \<and> designatedPane cfg ws = None"
  then show "addDefaultPosition cfg ws Map.empty = Map.empty"
    by (simp add: addDefaultPosition_empty_no_pane)
next
  assume "defaultOpenPosition cfg \<notin> set recognizedPositions"
  then show "addDefaultPosition cfg ws Map.empty = Map.empty"
    by (rule addDefaultPosition_empty_unknown)
next
  assume "(\<forall>x. ev \<noteq> OpenFulfilled x) \<and> (\<forall>e. ev \<noteq> OpenRejected e)"
  then show "resume (AwaitOpen commands) ev w = (AwaitOpen commands, w)"
    by (simp add: resume_open_other)
next
  show "resume (AwaitOpen commands) (OpenFulfilled (Some t)) w = (AwaitInitialized t commands, w)"
    by simp
next
  assume "ev \<noteq> InitializedFulfilled t \<and> (\<forall>e. ev \<noteq> InitializedRejected t e)"
  then show "resume (AwaitInitialized t commands) ev w = (AwaitInitialized t commands, w)"
    by (simp add: resume_other)
next
  show "resume (AwaitInitialized t commands) (InitializedFulfilled t) w =
     (Returned, w\<lparr>calls := calls w @ map (RunCommandCall t) commands\<rparr>)"
    by (simp add: runEach_calls)
qed

lemma activeSessions_activeWorld: "activeSessions activeWorld = [0]"
  by (simp add: activeSessions_def activeWorld_def someSession_def)

lemma activeSessions_idleWorld: "activeSessions idleWorld = []"
  by (simp add: activeSessions_def idleWorld_def someSession_def)

text \<open>
  C4 at concrete inputs: an active session under \<^verbatim>\<open>runInActive\<close>; no active session
  under \<^verbatim>\<open>runInActive\<close> and the position Center, which opens in the active pane; an
  active session with \<^verbatim>\<open>runInActive\<close> unset and the position Split Down; the placement
  of every other position; events that leave the task suspended; and the fulfilment that
  submits two commands.
\<close>

theorem runCommands_witness:
  "runCommands cfgCenter wsAll ''u1'' [''echo hi'', ''ls''] activeWorld =
     (AwaitInitialized 0 [''echo hi'', ''ls''], activeWorld) \<and>
   runCommands cfgCenter wsAll ''u1'' [''echo hi'', ''ls''] idleWorld =
     (AwaitOpen [''echo hi'', ''ls''],
      idleWorld\<lparr>calls := [WorkspaceOpenCall ''terminal://u1/'' [''pane'' \<mapsto> JPane 1]]\<rparr>) \<and>
   runCommands (cfgAt ''Split Down'') wsAll ''u1'' [''echo hi'', ''ls''] activeWorld =
     (AwaitOpen [''echo hi'', ''ls''],
      activeWorld\<lparr>calls :=
        [WorkspaceOpenCall ''terminal://u1/'' [''split'' \<mapsto> JString ''down'']]\<rparr>) \<and>
   addDefaultPosition (cfgAt ''Bottom Dock'') wsAll Map.empty = [''pane'' \<mapsto> JPane 2] \<and>
   addDefaultPosition (cfgAt ''Left Dock'') wsAll Map.empty = [''pane'' \<mapsto> JPane 3] \<and>
   addDefaultPosition (cfgAt ''Right Dock'') wsAll Map.empty = [''pane'' \<mapsto> JPane 4] \<and>
   addDefaultPosition (cfgAt ''Split Up'') wsAll Map.empty = [''split'' \<mapsto> JString ''up''] \<and>
   addDefaultPosition (cfgAt ''Split Left'') wsAll Map.empty = [''split'' \<mapsto> JString ''left''] \<and>
   addDefaultPosition (cfgAt ''Split Right'') wsAll Map.empty = [''split'' \<mapsto> JString ''right''] \<and>
   addDefaultPosition cfgCenter wsNoCenter Map.empty = Map.empty \<and>
   addDefaultPosition cfgUnknown wsAll Map.empty = Map.empty \<and>
   resume (AwaitOpen [''echo hi'', ''ls'']) (SessionClosed 0) activeWorld =
     (AwaitOpen [''echo hi'', ''ls''], activeWorld) \<and>
   resume (AwaitInitialized 0 [''echo hi'', ''ls'']) (InitializedFulfilled 1) activeWorld =
     (AwaitInitialized 0 [''echo hi'', ''ls''], activeWorld) \<and>
   resume (AwaitInitialized 0 [''echo hi'', ''ls'']) (InitializedFulfilled 0) activeWorld =
     (Returned, activeWorld\<lparr>calls := [RunCommandCall 0 ''echo hi'', RunCommandCall 0 ''ls'']\<rparr>)"
proof -
  let ?cmds = "[''echo hi'', ''ls'']"
  have c: "calls activeWorld = []" "calls idleWorld = []"
    by (simp_all add: activeWorld_def idleWorld_def)
  have cc: "defaultOpenPosition cfgCenter = ''Center''" "runInActive cfgCenter"
    by (simp_all add: cfgCenter_def)
  have cu: "defaultOpenPosition cfgUnknown \<notin> set recognizedPositions"
    by (simp add: cfgUnknown_def recognizedPositions_def)
  have ca: "defaultOpenPosition (cfgAt q) = q" "\<not> runInActive (cfgAt q)" for q
    by (simp_all add: cfgAt_def)
  have ws: "activePane wsAll = Some 1" "bottomDockActivePane wsAll = Some 2"
    "leftDockActivePane wsAll = Some 3" "rightDockActivePane wsAll = Some 4"
    by (simp_all add: wsAll_def)
  have wn: "defaultOpenPosition cfgCenter \<in> set panePositions"
    "designatedPane cfgCenter wsNoCenter = None"
    by (simp_all add: cfgCenter_def panePositions_def designatedPane_def wsNoCenter_def)
  note T = runCommands_target_then_ready_then_commands
  have 1: "runCommands cfgCenter wsAll ''u1'' ?cmds activeWorld =
             (AwaitInitialized 0 ?cmds, activeWorld)"
    using T [of cfgCenter activeWorld 0 "[]" wsAll "''u1''" ?cmds]
    by (simp add: cc activeSessions_activeWorld)
  have 2: "runCommands cfgCenter wsAll ''u1'' ?cmds idleWorld =
             (AwaitOpen ?cmds,
              idleWorld\<lparr>calls := [WorkspaceOpenCall ''terminal://u1/'' [''pane'' \<mapsto> JPane 1]]\<rparr>)"
    using T [of cfgCenter idleWorld 0 "[]" wsAll "''u1''" ?cmds 1]
    by (simp add: cc ws c activeSessions_idleWorld)
  have 3: "runCommands (cfgAt ''Split Down'') wsAll ''u1'' ?cmds activeWorld =
             (AwaitOpen ?cmds,
              activeWorld\<lparr>calls :=
                [WorkspaceOpenCall ''terminal://u1/'' [''split'' \<mapsto> JString ''down'']]\<rparr>)"
    using T [of "cfgAt ''Split Down''" activeWorld 0 "[]" wsAll "''u1''" ?cmds]
    by (simp add: ca c)
  have 4: "addDefaultPosition (cfgAt ''Bottom Dock'') wsAll Map.empty = [''pane'' \<mapsto> JPane 2]"
    using T [of "cfgAt ''Bottom Dock''" w t ts wsAll u cm 2 for w t ts u cm]
    by (simp add: ca ws)
  have 5: "addDefaultPosition (cfgAt ''Left Dock'') wsAll Map.empty = [''pane'' \<mapsto> JPane 3]"
    using T [of "cfgAt ''Left Dock''" w t ts wsAll u cm 3 for w t ts u cm]
    by (simp add: ca ws)
  have 6: "addDefaultPosition (cfgAt ''Right Dock'') wsAll Map.empty = [''pane'' \<mapsto> JPane 4]"
    using T [of "cfgAt ''Right Dock''" w t ts wsAll u cm 4 for w t ts u cm]
    by (simp add: ca ws)
  have 7: "addDefaultPosition (cfgAt ''Split Up'') wsAll Map.empty = [''split'' \<mapsto> JString ''up'']"
    using T [of "cfgAt ''Split Up''" _ _ _ wsAll] by (simp add: ca)
  have 8: "addDefaultPosition (cfgAt ''Split Left'') wsAll Map.empty = [''split'' \<mapsto> JString ''left'']"
    using T [of "cfgAt ''Split Left''" _ _ _ wsAll] by (simp add: ca)
  have 9: "addDefaultPosition (cfgAt ''Split Right'') wsAll Map.empty = [''split'' \<mapsto> JString ''right'']"
    using T [of "cfgAt ''Split Right''" _ _ _ wsAll] by (simp add: ca)
  have 10: "addDefaultPosition cfgCenter wsNoCenter Map.empty = Map.empty"
    using T [of cfgCenter _ _ _ wsNoCenter] wn by simp
  have 11: "addDefaultPosition cfgUnknown wsAll Map.empty = Map.empty"
    using T [of cfgUnknown _ _ _ wsAll] cu by simp
  have 12: "resume (AwaitOpen ?cmds) (SessionClosed 0) activeWorld = (AwaitOpen ?cmds, activeWorld)"
    using T [of _ activeWorld 0 _ _ _ ?cmds _ "SessionClosed 0"] by simp
  have 13: "resume (AwaitInitialized 0 ?cmds) (InitializedFulfilled 1) activeWorld =
              (AwaitInitialized 0 ?cmds, activeWorld)"
    using T [of _ activeWorld 0 _ _ _ ?cmds _ "InitializedFulfilled 1"] by simp
  have 14: "resume (AwaitInitialized 0 ?cmds) (InitializedFulfilled 0) activeWorld =
              (Returned, activeWorld\<lparr>calls := [RunCommandCall 0 ''echo hi'', RunCommandCall 0 ''ls'']\<rparr>)"
    using T [of _ activeWorld 0 _ _ _ ?cmds] by (simp add: c)
  from 1 2 3 4 5 6 7 8 9 10 11 12 13 14 show ?thesis by simp
qed

text \<open>
  Claim C5 fails on the code: a call is suspended on the only session, which is then
  closed. The task is still suspended after the close, and when the promise of the
  initialization is fulfilled afterwards the command is submitted to the closed session.
\<close>

theorem close_while_waiting_counterexample:
  "fst (runCommands cfgCenter wsAll ''u1'' [''echo hi''] activeWorld) =
     AwaitInitialized 0 [''echo hi''] \<and>
   set_values (terminalsSet (close selfRemoving activeWorld)) = [] \<and>
   resume (AwaitInitialized 0 [''echo hi'']) (SessionClosed 0) (close selfRemoving activeWorld) =
     (AwaitInitialized 0 [''echo hi''], close selfRemoving activeWorld) \<and>
   fst (resume (AwaitInitialized 0 [''echo hi'']) (InitializedFulfilled 0)
          (close selfRemoving activeWorld)) = Returned \<and>
   calls (snd (resume (AwaitInitialized 0 [''echo hi'']) (InitializedFulfilled 0)
          (close selfRemoving activeWorld))) = [ExitCall 0, RunCommandCall 0 ''echo hi'']"
proof -
  have r: "runInActive cfgCenter" by (simp add: cfgCenter_def)
  have "close selfRemoving activeWorld = exit_call selfRemoving 0 activeWorld"
    by (simp add: close_def getActiveTerminal_activeWorld)
  then have cl: "close selfRemoving activeWorld =
                   activeWorld\<lparr>calls := [ExitCall 0], terminalsSet := [None]\<rparr>"
    by (simp add: exit_call_def selfRemoving_def set_delete_def activeWorld_def)
  show ?thesis
    unfolding cl by (simp add: runCommands_def getActiveTerminal_activeWorld r runEach_calls set_values_def)
qed

text \<open>
  Claim C5, as the code has it. \<^verbatim>\<open>runCommands\<close> has no cancellation: the close of a
  session, the target or another, leaves the suspended task as it is. When the promise of
  the target's initialization is fulfilled after a close, every command is submitted all
  the same; when it is rejected, the task throws the rejection and submits nothing.
\<close>

theorem runCommands_no_cancellation:
  "resume (AwaitInitialized t commands) (SessionClosed t') w = (AwaitInitialized t commands, w) \<and>
   resume (AwaitInitialized t commands) (InitializedFulfilled t) (close fx w) =
     (Returned, (close fx w)\<lparr>calls := calls (close fx w) @ map (RunCommandCall t) commands\<rparr>) \<and>
   resume (AwaitInitialized t commands) (InitializedRejected t e) w = (Thrown e, w)"
  by (simp add: runEach_calls)

subsection \<open>Commands on the active terminal\<close>

text \<open>
  Claim C6. With no active session, each of \<^verbatim>\<open>close\<close>, \<^verbatim>\<open>restart\<close>, \<^verbatim>\<open>copy\<close> and
  \<^verbatim>\<open>paste\<close> returns the world as it was: no call on a session or on the clipboard is
  made, the clipboard and the set are unchanged, and there is no path on which any of
  them throws.
\<close>

theorem no_active_terminal_noop:
  "getActiveTerminal w = None \<Longrightarrow>
     close fx w = w \<and> restart w = w \<and> copy sel w = w \<and> paste w = w"
  by (simp add: close_def restart_def copy_def paste_def)

text \<open>
C6 at a world with two sessions, neither of them active.
\<close>

theorem no_active_terminal_noop_witness:
  "getActiveTerminal idleWorld = None \<and>
   close selfRemoving idleWorld = idleWorld \<and> restart idleWorld = idleWorld \<and>
   copy (\<lambda>t w. address (objs w t)) idleWorld = idleWorld \<and> paste idleWorld = idleWorld"
proof -
  have h: "getActiveTerminal idleWorld = None"
    by (simp add: getActiveTerminal_def idleWorld_def isActiveTerminal_def someSession_def)
  show ?thesis
    using h no_active_terminal_noop [OF h, of selfRemoving "\<lambda>t w. address (objs w t)"] by simp
qed

subsection \<open>The deserializer and the opener\<close>

lemma newTerminalModel_props:
  "\<exists>t w'. newTerminalModel u w = (t, w') \<and> t = nextRef w \<and> address (objs w' t) = u \<and>
     processState (objs w' t) = Starting \<and> set_has t (terminalsSet w') \<and>
     nextRef w' = Suc (nextRef w)"
  by (simp add: newTerminalModel_def Let_def set_has_set_add)

text \<open>
  Claim C7. For every serialized address: with \<^verbatim>\<open>allowRelaunchingTerminalsOnStartup\<close>
  unset, \<^verbatim>\<open>deserializeTerminalModel\<close> returns nothing and the world is unchanged (no
  session is created); with it set, it returns a newly created session whose address is
  exactly the serialized one.
\<close>

theorem deserializeTerminalModel_policy:
  "(\<not> allowRelaunchingTerminalsOnStartup cfg \<longrightarrow> deserializeTerminalModel cfg sm w = (None, w)) \<and>
   (allowRelaunchingTerminalsOnStartup cfg \<longrightarrow>
      (\<exists>t w'. deserializeTerminalModel cfg sm w = (Some t, w') \<and> t = nextRef w \<and>
         address (objs w' t) = uri sm \<and> set_has t (terminalsSet w')))"
  using newTerminalModel_props [of "uri sm" w]
  by (auto simp: deserializeTerminalModel_def)

text \<open>
C7 with the policy unset and with the policy set.
\<close>

theorem deserializeTerminalModel_policy_witness:
  "\<not> allowRelaunchingTerminalsOnStartup cfgUnknown \<and>
   deserializeTerminalModel cfgUnknown \<lparr>uri = ''terminal://b/''\<rparr> emptyWorld = (None, emptyWorld) \<and>
   allowRelaunchingTerminalsOnStartup cfgCenter \<and>
   (\<exists>t w'. deserializeTerminalModel cfgCenter \<lparr>uri = ''terminal://b/''\<rparr> emptyWorld = (Some t, w') \<and>
      t = nextRef emptyWorld \<and> address (objs w' t) = ''terminal://b/'' \<and> set_has t (terminalsSet w'))"
  using deserializeTerminalModel_policy [of cfgUnknown "\<lparr>uri = ''terminal://b/''\<rparr>" emptyWorld]
        deserializeTerminalModel_policy [of cfgCenter "\<lparr>uri = ''terminal://b/''\<rparr>" emptyWorld]
  by (simp add: cfgUnknown_def cfgCenter_def)

text \<open>
  Claim C9. The opener recognizes a string exactly when it begins with
  \<^verbatim>\<open>terminal://\<close>: with the prefix it returns a newly created session bound to the
  string, without it it returns nothing and the world is unchanged.
\<close>

theorem opener_recognizes_prefix:
  "(prefix TERMINAL_BASE_URI u \<longrightarrow>
      (\<exists>t w'. opener u w = (Some t, w') \<and> t = nextRef w \<and>
         address (objs w' t) = u \<and> set_has t (terminalsSet w'))) \<and>
   (\<not> prefix TERMINAL_BASE_URI u \<longrightarrow> opener u w = (None, w)) \<and>
   (fst (opener u w) \<noteq> None) = prefix TERMINAL_BASE_URI u"
  using newTerminalModel_props [of u w]
  by (auto simp: opener_def)

text \<open>
C9 at an address with the prefix and at one whose first letter is a capital.
\<close>

theorem opener_recognizes_prefix_witness:
  "prefix TERMINAL_BASE_URI ''terminal://b/'' \<and>
   (\<exists>t w'. opener ''terminal://b/'' emptyWorld = (Some t, w') \<and> t = nextRef emptyWorld \<and>
      address (objs w' t) = ''terminal://b/'' \<and> set_has t (terminalsSet w')) \<and>
   \<not> prefix TERMINAL_BASE_URI ''Terminal://b/'' \<and>
   opener ''Terminal://b/'' emptyWorld = (None, emptyWorld)"
  using opener_recognizes_prefix [of "''terminal://b/''" emptyWorld]
        opener_recognizes_prefix [of "''Terminal://b/''" emptyWorld]
  by (simp add: TERMINAL_BASE_URI_def)

subsection \<open>Generated addresses\<close>

text \<open>
  The part of claim C8 that is about the code: a generated address is the prefix, the
  token and a slash, and two tokens give the same address only when they are the same.
\<close>

lemma generateNewUri_structure:
  "generateNewUri uuid = ''terminal://'' @ uuid @ ''/'' \<and> prefix TERMINAL_BASE_URI (generateNewUri uuid)"
  by (simp add: generateNewUri_def TERMINAL_BASE_URI_def)

lemma generateNewUri_inj: "generateNewUri a = generateNewUri b \<longleftrightarrow> a = b"
  by (simp add: generateNewUri_def)

lemma generateNewUri_distinct: "distinct (map generateNewUri uuids) \<longleftrightarrow> distinct uuids"
  by (simp add: distinct_map inj_on_def generateNewUri_inj)

subsection \<open>Default placement\<close>

lemma setDefaultPane_keeps: "opts k = Some v \<Longrightarrow> setDefaultPane p opts k = Some v"
  by (cases p) (auto simp: setDefaultPane_def)

lemma setDefaultSplit_keeps: "opts k = Some v \<Longrightarrow> setDefaultSplit d opts k = Some v"
  by (auto simp: setDefaultSplit_def)

lemma addDefaultPosition_keeps:
  "opts k = Some v \<Longrightarrow> addDefaultPosition cfg ws opts k = Some v"
  by (simp add: addDefaultPosition_def Let_def setDefaultPane_keeps setDefaultSplit_keeps)

text \<open>
  Claim C10. For every options object: a \<^verbatim>\<open>pane\<close> or a \<^verbatim>\<open>split\<close> key the caller
  supplied keeps its value; when the configured position is none of the eight the
  \<^verbatim>\<open>switch\<close> knows, or it designates the center or a dock that has no active pane, the
  options are returned unchanged.
\<close>

theorem addDefaultPosition_frame:
  "(opts ''pane'' = Some v \<longrightarrow> addDefaultPosition cfg ws opts ''pane'' = Some v) \<and>
   (opts ''split'' = Some v \<longrightarrow> addDefaultPosition cfg ws opts ''split'' = Some v) \<and>
   (defaultOpenPosition cfg \<notin> set recognizedPositions \<longrightarrow>
      addDefaultPosition cfg ws opts = opts) \<and>
   (defaultOpenPosition cfg \<in> set panePositions \<and> designatedPane cfg ws = None \<longrightarrow>
      addDefaultPosition cfg ws opts = opts)"
proof (intro conjI impI)
  assume "opts ''pane'' = Some v"
  then show "addDefaultPosition cfg ws opts ''pane'' = Some v"
    by (rule addDefaultPosition_keeps)
next
  assume "opts ''split'' = Some v"
  then show "addDefaultPosition cfg ws opts ''split'' = Some v"
    by (rule addDefaultPosition_keeps)
next
  assume "defaultOpenPosition cfg \<notin> set recognizedPositions"
  then show "addDefaultPosition cfg ws opts = opts"
    by (simp add: addDefaultPosition_def recognizedPositions_def Let_def)
next
  assume "defaultOpenPosition cfg \<in> set panePositions \<and> designatedPane cfg ws = None"
  then show "addDefaultPosition cfg ws opts = opts"
    by (auto simp: addDefaultPosition_def panePositions_def designatedPane_def Let_def
        setDefaultPane_def)
qed

text \<open>
  C10 at four inputs: a supplied pane and a supplied split under the position Center, an
  unknown position, and the position Center in a workspace with no active pane.
\<close>

theorem addDefaultPosition_frame_witness:
  "addDefaultPosition cfgCenter wsAll [''pane'' \<mapsto> JPane 9] ''pane'' = Some (JPane 9) \<and>
   addDefaultPosition cfgCenter wsAll [''split'' \<mapsto> JString ''left''] ''split'' =
     Some (JString ''left'') \<and>
   addDefaultPosition cfgUnknown wsAll [''split'' \<mapsto> JString ''left''] =
     [''split'' \<mapsto> JString ''left''] \<and>
   addDefaultPosition cfgCenter wsNoCenter Map.empty = Map.empty"
  using addDefaultPosition_frame [of "[''pane'' \<mapsto> JPane 9]" "JPane 9" cfgCenter wsAll]
        addDefaultPosition_frame
          [of "[''split'' \<mapsto> JString ''left'']" "JString ''left''" cfgCenter wsAll]
        addDefaultPosition_frame
          [of "[''split'' \<mapsto> JString ''left'']" "JString ''left''" cfgUnknown wsAll]
        addDefaultPosition_frame [of Map.empty "JString ''left''" cfgCenter wsNoCenter]
  by (simp add: cfgCenter_def cfgUnknown_def wsAll_def wsNoCenter_def recognizedPositions_def
      panePositions_def designatedPane_def)

end
